theory Spec2Isabelle
  imports Complex_Main "HOL-Library.Word"
begin

unbundle bit_operations_syntax

section \<open>The weather clock: field extractor, job bodies and startup\<close>

text \<open>
  A shallow embedding of three C files of the weather clock firmware:
  \<^verbatim>\<open>app/weather.c\<close> (the field extractor \<^verbatim>\<open>parse_seniverse_response\<close>),
  \<^verbatim>\<open>app/app.c\<close> (the five job bodies and \<^verbatim>\<open>app_init\<close>) and
  \<^verbatim>\<open>app/page/main_page.c\<close> (the display setters).

  C strings are \<open>string\<close> (lists of bytes up to, not including, the terminating NUL).
  Calls to collaborators that are not part of these files (display, RTC, timers, work
  queue) are recorded as a list of calls, in program order. Console output through
  \<^verbatim>\<open>printf\<close> is not recorded.
\<close>

subsection \<open>The C library functions used by the field extractor\<close>

definition is_prefix :: "string \<Rightarrow> string \<Rightarrow> bool" where
  "is_prefix p s = (take (length p) s = p)"

text \<open>
  \<^verbatim>\<open>strstr(haystack, needle)\<close>: the suffix of the haystack that starts at the first
  occurrence of the needle, \<open>None\<close> for the NULL pointer.
\<close>

fun strstr :: "string \<Rightarrow> string \<Rightarrow> string option" where
  "strstr [] needle = (if needle = [] then Some [] else None)"
| "strstr (c # cs) needle =
     (if is_prefix needle (c # cs) then Some (c # cs) else strstr cs needle)"

definition isspace :: "char \<Rightarrow> bool" where
  "isspace c = (c = CHR 0x20 \<or> c = CHR 0x09 \<or> c = CHR 0x0A \<or> c = CHR 0x0B
                \<or> c = CHR 0x0C \<or> c = CHR 0x0D)"

definition isdigit :: "char \<Rightarrow> bool" where
  "isdigit c = (48 \<le> (of_char c :: nat) \<and> (of_char c :: nat) \<le> 57)"

definition dquote :: char where
  "dquote = CHR 0x22"

text \<open>
  The value of a run of decimal digits, most significant digit first.
\<close>

fun dec_value :: "nat \<Rightarrow> string \<Rightarrow> nat" where
  "dec_value acc [] = acc"
| "dec_value acc (c # cs) = dec_value (acc * 10 + (of_char c - 48)) cs"

text \<open>
  The common head of all five \<^verbatim>\<open>sscanf\<close> formats of the extractor,
  \<^verbatim>\<open>"\"key\": \"\<close>: the literal key with its quotes and colon is matched byte by
  byte, the blank of the format skips any run of white space (also an empty one), and
  the opening quote is matched. The result is the input that is left for the
  conversion, \<open>None\<close> for a matching failure.
\<close>

definition scan_key :: "string \<Rightarrow> string \<Rightarrow> string option" where
  "scan_key key s =
     (if is_prefix key s then
        (case dropWhile isspace (drop (length key) s) of
           [] \<Rightarrow> None
         | c # rest \<Rightarrow> if c = dquote then Some rest else None)
      else None)"

text \<open>
  The conversion \<^verbatim>\<open>%N[^\"]\<close>: the longest run of at most \<open>N\<close> bytes other than the
  double quote. An empty run is a matching failure and nothing is stored.
\<close>

definition scan_set :: "nat \<Rightarrow> string \<Rightarrow> string option" where
  "scan_set n s =
     (let run = take n (takeWhile (\<lambda>c. c \<noteq> dquote) s)
      in if run = [] then None else Some run)"

text \<open>
  The conversion \<^verbatim>\<open>%d\<close>: white space is skipped, then an optional sign and a nonempty
  run of decimal digits is read. The model keeps the mathematical value; C leaves a
  value outside the range of \<^verbatim>\<open>int\<close> undefined.
\<close>

definition scan_int :: "string \<Rightarrow> int option" where
  "scan_int s =
     (let t = dropWhile isspace s;
          neg = (case t of [] \<Rightarrow> False | c # _ \<Rightarrow> c = CHR ''-'');
          u = (case t of [] \<Rightarrow> []
               | c # r \<Rightarrow> if c = CHR ''-'' \<or> c = CHR ''+'' then r else t);
          ds = takeWhile isdigit u
      in if ds = [] then None
         else Some (if neg then - int (dec_value 0 ds) else int (dec_value 0 ds)))"

text \<open>
  \<^verbatim>\<open>sscanf(s, "\"key\": \"%N[^\"]\"", buf)\<close> and \<^verbatim>\<open>sscanf(s, "\"key\": \"%d\"", &n)\<close>:
  \<open>Some\<close> of the stored value when the call stores one (and returns 1), \<open>None\<close> when
  it stores nothing. The closing quote of the format comes after the conversion and
  has no effect on what is stored.
\<close>

definition sscanf_string :: "string \<Rightarrow> nat \<Rightarrow> string \<Rightarrow> string option" where
  "sscanf_string key n s =
     (case scan_key key s of None \<Rightarrow> None | Some rest \<Rightarrow> scan_set n rest)"

definition sscanf_int :: "string \<Rightarrow> string \<Rightarrow> int option" where
  "sscanf_int key s =
     (case scan_key key s of None \<Rightarrow> None | Some rest \<Rightarrow> scan_int rest)"

text \<open>
  \<^verbatim>\<open>atof\<close> is a parameter of the extractor: it maps the text of a number to the
  representation \<open>'f\<close> of a C \<^verbatim>\<open>float\<close>. \<open>atof_decimal\<close> is its value on decimal
  numerals (white space, optional sign, digits with an optional fraction, optional
  exponent) as an exact rational, and 0 when no number can be read, as \<^verbatim>\<open>atof\<close>
  returns. It is the value of the C call whenever that rational is a \<^verbatim>\<open>float\<close>;
  hexadecimal numerals, infinities and NaNs are outside it.
\<close>

definition scan_exponent :: "string \<Rightarrow> int" where
  "scan_exponent s =
     (case s of
        [] \<Rightarrow> 0
      | e # r \<Rightarrow>
          if e = CHR ''e'' \<or> e = CHR ''E'' then
            (let neg = (case r of [] \<Rightarrow> False | c # _ \<Rightarrow> c = CHR ''-'');
                 u = (case r of [] \<Rightarrow> []
                      | c # r' \<Rightarrow> if c = CHR ''-'' \<or> c = CHR ''+'' then r' else r);
                 ds = takeWhile isdigit u
             in if ds = [] then 0
                else if neg then - int (dec_value 0 ds) else int (dec_value 0 ds))
          else 0)"

definition atof_decimal :: "string \<Rightarrow> rat" where
  "atof_decimal s =
     (let t = dropWhile isspace s;
          neg = (case t of [] \<Rightarrow> False | c # _ \<Rightarrow> c = CHR ''-'');
          u = (case t of [] \<Rightarrow> []
               | c # r \<Rightarrow> if c = CHR ''-'' \<or> c = CHR ''+'' then r else t);
          ip = takeWhile isdigit u;
          v = dropWhile isdigit u;
          fp = (case v of [] \<Rightarrow> []
                | c # r \<Rightarrow> if c = CHR ''.'' then takeWhile isdigit r else []);
          w = (case v of [] \<Rightarrow> []
               | c # r \<Rightarrow> if c = CHR ''.'' then dropWhile isdigit r else v);
          ex = scan_exponent w;
          m = of_nat (dec_value 0 (ip @ fp)) / 10 ^ length fp;
          x = (if 0 \<le> ex then m * 10 ^ nat ex else m / 10 ^ nat (- ex))
      in if ip = [] \<and> fp = [] then 0 else if neg then - x else x)"

subsection \<open>The field extractor\<close>

text \<open>
  \<^verbatim>\<open>weather_info_t\<close>, with the field names of the source.
\<close>

record 'f weather_info =
  city :: string
  loaction :: string
  weather :: string
  weather_code :: int
  temperature :: 'f

text \<open>
  The record initialised with \<^verbatim>\<open>{ 0 }\<close>.
\<close>

definition weather_zero :: "('f::zero) weather_info" where
  "weather_zero =
     \<lparr>city = [], loaction = [], weather = [], weather_code = 0, temperature = 0\<rparr>"

text \<open>
  One optional field: look for the key from the start of the section and, if it is
  there, scan its value.
\<close>

definition field_string :: "string \<Rightarrow> nat \<Rightarrow> string \<Rightarrow> string option" where
  "field_string key n section =
     (case strstr section key of None \<Rightarrow> None | Some r \<Rightarrow> sscanf_string key n r)"

definition field_int :: "string \<Rightarrow> string \<Rightarrow> int option" where
  "field_int key section =
     (case strstr section key of None \<Rightarrow> None | Some r \<Rightarrow> sscanf_int key r)"

definition key_results :: string where
  \<open>key_results = ''"results":''\<close>

definition key_location :: string where
  \<open>key_location = ''"location":''\<close>

definition key_now :: string where
  \<open>key_now = ''"now":''\<close>

definition key_name :: string where
  \<open>key_name = ''"name":''\<close>

definition key_path :: string where
  \<open>key_path = ''"path":''\<close>

definition key_text :: string where
  \<open>key_text = ''"text":''\<close>

definition key_code :: string where
  \<open>key_code = ''"code":''\<close>

definition key_temperature :: string where
  \<open>key_temperature = ''"temperature":''\<close>

text \<open>
  The fields of the location section and of the now section, written into the record
  in the order of the source. A field whose key is missing or whose scan stores
  nothing keeps the value it had.
\<close>

definition parse_location :: "string \<Rightarrow> 'f weather_info \<Rightarrow> 'f weather_info" where
  "parse_location location_response info =
     (let info1 = (case field_string key_name 31 location_response of
                     None \<Rightarrow> info | Some s \<Rightarrow> info\<lparr>city := s\<rparr>)
      in (case field_string key_path 128 location_response of
            None \<Rightarrow> info1 | Some s \<Rightarrow> info1\<lparr>loaction := s\<rparr>))"

definition parse_now ::
  "(string \<Rightarrow> 'f) \<Rightarrow> string \<Rightarrow> 'f weather_info \<Rightarrow> 'f weather_info" where
  "parse_now atof now_response info =
     (let info1 = (case field_string key_text 15 now_response of
                     None \<Rightarrow> info | Some s \<Rightarrow> info\<lparr>weather := s\<rparr>);
          info2 = (case field_int key_code now_response of
                     None \<Rightarrow> info1 | Some n \<Rightarrow> info1\<lparr>weather_code := n\<rparr>)
      in (case field_string key_temperature 15 now_response of
            None \<Rightarrow> info2 | Some s \<Rightarrow> info2\<lparr>temperature := atof s\<rparr>))"

text \<open>
  \<^verbatim>\<open>parse_seniverse_response(response, info)\<close>: the returned flag and the record the
  pointer \<^verbatim>\<open>info\<close> refers to afterwards. The location fields are written before the
  now anchor is looked for, so a failure at the now anchor leaves them written.
\<close>

definition parse_seniverse_response ::
  "(string \<Rightarrow> 'f) \<Rightarrow> string \<Rightarrow> 'f weather_info \<Rightarrow> bool \<times> 'f weather_info" where
  "parse_seniverse_response atof response info =
     (case strstr response key_results of
        None \<Rightarrow> (False, info)
      | Some results \<Rightarrow>
          (case strstr results key_location of
             None \<Rightarrow> (False, info)
           | Some location_response \<Rightarrow>
               (let info1 = parse_location location_response info
                in (case strstr results key_now of
                      None \<Rightarrow> (False, info1)
                    | Some now_response \<Rightarrow> (True, parse_now atof now_response info1)))))"

text \<open>
  The exemplar payload of the service, and the same payload without its code key.
\<close>

definition payload_exemplar :: string where
  \<open>payload_exemplar =
     ''{"results":[{"location":{"name":"Singapore","path":"Singapore,Singapore,Singapore"},"now":{"text":"Sunny","code":"0","temperature":"28"}}]}''\<close>

definition payload_without_code :: string where
  \<open>payload_without_code =
     ''{"results":[{"location":{"name":"Singapore","path":"Singapore,Singapore,Singapore"},"now":{"text":"Sunny","temperature":"28"}}]}''\<close>

subsection \<open>Data of the job bodies\<close>

text \<open>
  \<^verbatim>\<open>rtc_date_time_t\<close> and \<^verbatim>\<open>esp_date_time_t\<close> have the same seven fields; the source prints
  them as unsigned numbers. \<^verbatim>\<open>esp_wifi_info_t\<close> has the five fields the source reads.
\<close>

record rtc_date_time =
  year :: nat
  month :: nat
  day :: nat
  hour :: nat
  minute :: nat
  second :: nat
  weekday :: nat

record esp_date_time =
  esp_year :: nat
  esp_month :: nat
  esp_day :: nat
  esp_hour :: nat
  esp_minute :: nat
  esp_second :: nat
  esp_weekday :: nat

record esp_wifi_info =
  ssid :: string
  bssid :: string
  channel :: int
  rssi :: int
  connected :: bool

text \<open>
  A C \<^verbatim>\<open>float\<close> of the indoor sensor is its IEEE 754 binary32 bit pattern. \<open>float_eq\<close> is
  the operator \<^verbatim>\<open>==\<close> on two floats: a NaN is equal to nothing, the two zeros are
  equal to each other, and otherwise the bit patterns are compared.
\<close>

type_synonym float32 = "32 word"

definition is_nan :: "float32 \<Rightarrow> bool" where
  "is_nan w = (w AND 0x7F800000 = 0x7F800000 \<and> w AND 0x007FFFFF \<noteq> 0)"

definition is_zero :: "float32 \<Rightarrow> bool" where
  "is_zero w = (w AND 0x7FFFFFFF = 0)"

definition float_eq :: "float32 \<Rightarrow> float32 \<Rightarrow> bool" where
  "float_eq a b = (\<not> is_nan a \<and> \<not> is_nan b \<and> (a = b \<or> (is_zero a \<and> is_zero b)))"

text \<open>
  The calls of the job bodies to the display page, \<^verbatim>\<open>main_page_redraw_*\<close>, with their
  arguments.
\<close>

datatype 'f page_call =
    Main_page_redraw_wifi_ssid string
  | Main_page_redraw_time rtc_date_time
  | Main_page_redraw_date rtc_date_time
  | Main_page_redraw_inner_temperature float32
  | Main_page_redraw_inner_humidity float32
  | Main_page_redraw_outdoor_temperature 'f
  | Main_page_redraw_outdoor_weather_icon int
  | Main_page_redraw_outdoor_city string

text \<open>
  The five timer handles, the five job functions and the two timer callbacks of
  \<^verbatim>\<open>app.c\<close>.
\<close>

datatype timer =
    Time_sync_timer | Wifi_update_timer | Time_update_timer
  | Inner_update_timer | Outdoor_update_timer

datatype app_job = Time_sync | Wifi_update | Time_update | Inner_update | Outdoor_update

datatype timer_cb = Work_timer_cb | App_timer_cb

text \<open>
  \<^verbatim>\<open>pdMS_TO_TICKS(ms)\<close> is a macro of FreeRTOS; a tick count is kept as the macro applied
  to its number of milliseconds.
\<close>

datatype ticks = PdMS_TO_TICKS nat

text \<open>
  The calls to the RTC, the timers and the work queue. \<open>XTimerCreate t name period
  reload job cb\<close> is the call whose handle is stored in the variable \<open>t\<close>;
  \<open>Workqueue_run job\<close> is \<^verbatim>\<open>workqueue_run(app_work, job)\<close>. The last argument of
  \<open>XTimerChangePeriod\<close> and \<open>XTimerStart\<close> is the block time.
\<close>

datatype os_call =
    Rtc_set_time rtc_date_time
  | XTimerChangePeriod timer ticks nat
  | XTimerCreate timer string ticks bool app_job timer_cb
  | XTimerStart timer nat
  | Workqueue_run app_job

subsection \<open>Intervals\<close>

definition MILLISECONDS :: "nat \<Rightarrow> nat" where
  "MILLISECONDS x = x"

definition SECONDS :: "nat \<Rightarrow> nat" where
  "SECONDS x = MILLISECONDS (x * 1000)"

definition MINUTES :: "nat \<Rightarrow> nat" where
  "MINUTES x = SECONDS (x * 60)"

definition HOURS :: "nat \<Rightarrow> nat" where
  "HOURS x = MINUTES (x * 60)"

definition TIME_SYNC_INTERVAL :: nat where
  "TIME_SYNC_INTERVAL = HOURS 1"

definition WIFI_UPDATE_INTERVAL :: nat where
  "WIFI_UPDATE_INTERVAL = SECONDS 5"

definition TIME_UPDATE_INTERVAL :: nat where
  "TIME_UPDATE_INTERVAL = SECONDS 1"

definition INNER_UPDATE_INTERVAL :: nat where
  "INNER_UPDATE_INTERVAL = SECONDS 3"

definition OUTDOOR_UPDATE_INTERVAL :: nat where
  "OUTDOOR_UPDATE_INTERVAL = MINUTES 1"

subsection \<open>The job bodies\<close>

text \<open>
  \<^verbatim>\<open>time_sync\<close>. The argument is what \<^verbatim>\<open>esp_at_sntp_get_time\<close> delivers, \<open>None\<close> when it
  returns false. \<open>time_sync_attempt\<close> is the part of the body before the label
  \<^verbatim>\<open>err\<close>: the value of \<^verbatim>\<open>restart_sync_delay\<close> there and the calls made so far. Both
  \<^verbatim>\<open>goto\<close>s and the fall through reach the one call after the label.
\<close>

definition rtc_of_esp :: "esp_date_time \<Rightarrow> rtc_date_time" where
  "rtc_of_esp esp_date =
     \<lparr>year = esp_year esp_date, month = esp_month esp_date, day = esp_day esp_date,
      hour = esp_hour esp_date, minute = esp_minute esp_date,
      second = esp_second esp_date, weekday = esp_weekday esp_date\<rparr>"

definition time_sync_attempt :: "esp_date_time option \<Rightarrow> nat \<times> os_call list" where
  "time_sync_attempt fetched =
     (case fetched of
        None \<Rightarrow> (SECONDS 1, [])
      | Some esp_date \<Rightarrow>
          if esp_year esp_date < 2000 then (SECONDS 1, [])
          else (TIME_SYNC_INTERVAL, [Rtc_set_time (rtc_of_esp esp_date)]))"

definition time_sync :: "esp_date_time option \<Rightarrow> os_call list" where
  "time_sync fetched =
     (case time_sync_attempt fetched of
        (restart_sync_delay, calls) \<Rightarrow>
          calls @ [XTimerChangePeriod Time_sync_timer (PdMS_TO_TICKS restart_sync_delay) 0])"

text \<open>
  The other four jobs keep a snapshot in a static variable. Each is a function of what
  its collaborator delivers and of the snapshot, and returns the snapshot afterwards
  and the display calls it made. \<^verbatim>\<open>memcmp\<close> and \<^verbatim>\<open>memcpy\<close> over a whole struct are
  equality and assignment of the record.

  \<^verbatim>\<open>wifi_update\<close>: the argument is what \<^verbatim>\<open>esp_at_get_wifi_info\<close> delivers.
\<close>

definition wifi_update ::
  "esp_wifi_info option \<Rightarrow> esp_wifi_info \<Rightarrow> esp_wifi_info \<times> 'f page_call list" where
  "wifi_update fetched last_info =
     (case fetched of
        None \<Rightarrow> (last_info, [])
      | Some info \<Rightarrow>
          if info = last_info then (last_info, [])
          else if connected last_info = connected info then (last_info, [])
          else if connected info then (info, [Main_page_redraw_wifi_ssid (ssid info)])
          else (info, [Main_page_redraw_wifi_ssid ''wifi lost'']))"

text \<open>
  \<^verbatim>\<open>time_update\<close>: the argument is what \<^verbatim>\<open>rtc_get_time\<close> delivers.
\<close>

definition time_update ::
  "rtc_date_time \<Rightarrow> rtc_date_time \<Rightarrow> rtc_date_time \<times> 'f page_call list" where
  "time_update date last_date =
     (if year date < 2020 then (last_date, [])
      else if date = last_date then (last_date, [])
      else (date, [Main_page_redraw_time date, Main_page_redraw_date date]))"

text \<open>
  \<^verbatim>\<open>inner_update\<close>: the arguments are the results of \<^verbatim>\<open>aht20_start_measurement\<close>, of
  \<^verbatim>\<open>aht20_wait_for_measurement\<close> and of \<^verbatim>\<open>aht20_read_measurement\<close> (the temperature
  and the humidity it reads, \<open>None\<close> when it returns false). The snapshot is the pair of
  \<^verbatim>\<open>last_temperature\<close> and \<^verbatim>\<open>last_humidity\<close>.
\<close>

definition inner_update ::
  "bool \<Rightarrow> bool \<Rightarrow> (float32 \<times> float32) option \<Rightarrow> float32 \<times> float32
     \<Rightarrow> (float32 \<times> float32) \<times> 'f page_call list" where
  "inner_update started waited measured last_values =
     (case last_values of
        (last_temperature, last_humidity) \<Rightarrow>
          if \<not> started then (last_values, [])
          else if \<not> waited then (last_values, [])
          else (case measured of
                  None \<Rightarrow> (last_values, [])
                | Some (temperature_read, humidity_read) \<Rightarrow>
                    if float_eq temperature_read last_temperature
                       \<and> float_eq humidity_read last_humidity
                    then (last_values, [])
                    else ((temperature_read, humidity_read),
                          [Main_page_redraw_inner_temperature temperature_read,
                           Main_page_redraw_inner_humidity humidity_read])))"

text \<open>
  \<^verbatim>\<open>outdoor_update\<close>: the argument is what \<^verbatim>\<open>esp_at_http_get\<close> delivers, \<open>None\<close> for the
  NULL pointer. The response is parsed into a record initialised with zeros.
\<close>

definition outdoor_update ::
  "(string \<Rightarrow> 'f) \<Rightarrow> string option \<Rightarrow> ('f::zero) weather_info
     \<Rightarrow> 'f weather_info \<times> 'f page_call list" where
  "outdoor_update atof weather_http_response last_weather =
     (case weather_http_response of
        None \<Rightarrow> (last_weather, [])
      | Some response \<Rightarrow>
          (case parse_seniverse_response atof response weather_zero of
             (False, _) \<Rightarrow> (last_weather, [])
           | (True, weather_new) \<Rightarrow>
               if last_weather = weather_new then (last_weather, [])
               else (weather_new,
                     [Main_page_redraw_outdoor_temperature (temperature weather_new),
                      Main_page_redraw_outdoor_weather_icon (weather_code weather_new)])))"

text \<open>
  The snapshots as the static variables are initialised.
\<close>

definition last_info_init :: esp_wifi_info where
  "last_info_init = \<lparr>ssid = [], bssid = [], channel = 0, rssi = 0, connected = False\<rparr>"

definition last_date_init :: rtc_date_time where
  "last_date_init =
     \<lparr>year = 0, month = 0, day = 0, hour = 0, minute = 0, second = 0, weekday = 0\<rparr>"

definition last_inner_init :: "float32 \<times> float32" where
  "last_inner_init = (0, 0)"

subsection \<open>Startup\<close>

text \<open>
  \<^verbatim>\<open>app_init\<close>: the calls it makes, in order.
\<close>

definition app_init :: "os_call list" where
  "app_init =
     [XTimerCreate Time_update_timer ''time update''
        (PdMS_TO_TICKS TIME_UPDATE_INTERVAL) True Time_update App_timer_cb,
      XTimerCreate Time_sync_timer ''time sync''
        (PdMS_TO_TICKS 200) False Time_sync Work_timer_cb,
      XTimerCreate Wifi_update_timer ''wifi update''
        (PdMS_TO_TICKS WIFI_UPDATE_INTERVAL) True Wifi_update Work_timer_cb,
      XTimerCreate Inner_update_timer ''inner upadte''
        (PdMS_TO_TICKS INNER_UPDATE_INTERVAL) True Inner_update Work_timer_cb,
      XTimerCreate Outdoor_update_timer ''outdoor update''
        (PdMS_TO_TICKS OUTDOOR_UPDATE_INTERVAL) True Outdoor_update Work_timer_cb,
      Workqueue_run Time_sync,
      Workqueue_run Wifi_update,
      Workqueue_run Inner_update,
      Workqueue_run Outdoor_update,
      XTimerStart Time_update_timer 0,
      XTimerStart Time_sync_timer 0,
      XTimerStart Wifi_update_timer 0,
      XTimerStart Inner_update_timer 0,
      XTimerStart Outdoor_update_timer 0]"

text \<open>
  The timers a list of calls starts, and the jobs it hands to the work queue.
\<close>

fun started_timers :: "os_call list \<Rightarrow> timer list" where
  "started_timers [] = []"
| "started_timers (XTimerStart t b # cs) = t # started_timers cs"
| "started_timers (c # cs) = started_timers cs"

fun queued_jobs :: "os_call list \<Rightarrow> app_job list" where
  "queued_jobs [] = []"
| "queued_jobs (Workqueue_run j # cs) = j # queued_jobs cs"
| "queued_jobs (c # cs) = queued_jobs cs"

fun period_changes :: "os_call list \<Rightarrow> (timer \<times> ticks) list" where
  "period_changes [] = []"
| "period_changes (XTimerChangePeriod t p b # cs) = (t, p) # period_changes cs"
| "period_changes (c # cs) = period_changes cs"

subsection \<open>The weather icon of the display page\<close>

datatype image =
    Img_weather_sunny | Img_weather_cloudy | Img_weather_rainy
  | Img_weather_snowy | Img_weather_unknown

datatype color = Mkcolor nat nat nat

datatype ui_call =
    Ui_fill_color nat nat nat nat color
  | Ui_draw_image nat nat image

definition COLOR_BACKGROUND :: color where
  "COLOR_BACKGROUND = Mkcolor 0 0 0"

definition WEATHER_ICON_X :: nat where
  "WEATHER_ICON_X = 160"

definition WEATHER_ICON_Y :: nat where
  "WEATHER_ICON_Y = 200"

text \<open>
  The \<^verbatim>\<open>switch\<close> of \<^verbatim>\<open>main_page_redraw_outdoor_weather_icon\<close>: the value of the pointer
  \<^verbatim>\<open>weather_icon\<close> after it, \<open>None\<close> for NULL.
\<close>

definition weather_icon :: "int \<Rightarrow> image option" where
  "weather_icon code =
     (if code = 0 \<or> code = 1 then Some Img_weather_sunny
      else if code = 4 \<or> code = 5 \<or> code = 6 \<or> code = 7 \<or> code = 8
        then Some Img_weather_cloudy
      else if code = 9 \<or> code = 10 \<or> code = 11 \<or> code = 12 \<or> code = 13
        then Some Img_weather_rainy
      else if code = 14 \<or> code = 15 \<or> code = 16 \<or> code = 17
        then Some Img_weather_snowy
      else Some Img_weather_unknown)"

definition main_page_redraw_outdoor_weather_icon :: "int \<Rightarrow> ui_call list" where
  "main_page_redraw_outdoor_weather_icon code =
     (case weather_icon code of
        None \<Rightarrow> []
      | Some icon \<Rightarrow>
          [Ui_fill_color WEATHER_ICON_X WEATHER_ICON_Y
             (WEATHER_ICON_X + 64) (WEATHER_ICON_Y + 64) COLOR_BACKGROUND,
           Ui_draw_image WEATHER_ICON_X WEATHER_ICON_Y icon])"

subsection \<open>The connectivity filter, as the specification words it\<close>

text \<open>
  A filter that looks at nothing but the connected flag of the new status and of the
  snapshot.
\<close>

definition connectivity_filter ::
  "esp_wifi_info option \<Rightarrow> esp_wifi_info \<Rightarrow> esp_wifi_info \<times> 'f page_call list" where
  "connectivity_filter fetched last_info =
     (case fetched of
        None \<Rightarrow> (last_info, [])
      | Some info \<Rightarrow>
          if connected info = connected last_info then (last_info, [])
          else (info, [Main_page_redraw_wifi_ssid
                         (if connected info then ssid info else ''wifi lost'')]))"

text \<open>
  The job run once for each of a list of deliveries, the snapshot passed on from one
  run to the next.
\<close>

fun wifi_update_runs ::
  "esp_wifi_info option list \<Rightarrow> esp_wifi_info \<Rightarrow> esp_wifi_info \<times> 'f page_call list" where
  "wifi_update_runs [] last_info = (last_info, [])"
| "wifi_update_runs (fetched # rest) last_info =
     (case wifi_update fetched last_info of
        (last1, calls1) \<Rightarrow>
          (case wifi_update_runs rest last1 of
             (last2, calls2) \<Rightarrow> (last2, calls1 @ calls2)))"

text \<open>
  A delivery keeps the connectivity of a snapshot when it is a failed fetch or has the
  snapshot's connected flag.
\<close>

definition keeps_connectivity :: "esp_wifi_info \<Rightarrow> esp_wifi_info option \<Rightarrow> bool" where
  "keeps_connectivity last_info fetched =
     (case fetched of None \<Rightarrow> True | Some info \<Rightarrow> connected info = connected last_info)"

text \<open>
  The display calls that set the city text.
\<close>

fun is_city_call :: "'f page_call \<Rightarrow> bool" where
  "is_city_call (Main_page_redraw_outdoor_city c) = True"
| "is_city_call other = False"

text \<open>
  Two payloads that lack one of the sections: the first has no now section, the second
  no location section.
\<close>

definition payload_without_now :: string where
  \<open>payload_without_now =
     ''{"results":[{"location":{"name":"Singapore","path":"Singapore,Singapore,Singapore"}}]}''\<close>

definition payload_without_location :: string where
  \<open>payload_without_location =
     ''{"results":[{"now":{"text":"Sunny","code":"0","temperature":"28"}}]}''\<close>

subsection \<open>Sample values\<close>

text \<open>
  A clock reading, two sensor values (25.0 and 50.0 as binary32), two Wi-Fi statuses of
  one network that differ in the signal strength, a status without a connection, and
  the record the exemplar payload is parsed to.
\<close>

definition date_sample :: rtc_date_time where
  "date_sample =
     \<lparr>year = 2024, month = 5, day = 17, hour = 8, minute = 30, second = 0, weekday = 5\<rparr>"

definition esp_date_sample :: esp_date_time where
  "esp_date_sample =
     \<lparr>esp_year = 2024, esp_month = 5, esp_day = 17, esp_hour = 8, esp_minute = 30,
      esp_second = 0, esp_weekday = 5\<rparr>"

definition temperature_sample :: float32 where
  "temperature_sample = 0x41C80000"

definition humidity_sample :: float32 where
  "humidity_sample = 0x42480000"

definition wifi_home :: esp_wifi_info where
  "wifi_home =
     \<lparr>ssid = ''home'', bssid = ''aa:bb:cc:dd:ee:ff'', channel = 6, rssi = - 50,
      connected = True\<rparr>"

definition wifi_home_weak :: esp_wifi_info where
  "wifi_home_weak =
     \<lparr>ssid = ''home'', bssid = ''aa:bb:cc:dd:ee:ff'', channel = 6, rssi = - 80,
      connected = True\<rparr>"

definition wifi_office :: esp_wifi_info where
  "wifi_office =
     \<lparr>ssid = ''office'', bssid = ''11:22:33:44:55:66'', channel = 11, rssi = - 60,
      connected = True\<rparr>"

definition wifi_none :: esp_wifi_info where
  "wifi_none = \<lparr>ssid = [], bssid = [], channel = 0, rssi = 0, connected = False\<rparr>"

definition weather_exemplar :: "rat weather_info" where
  "weather_exemplar =
     \<lparr>city = ''Singapore'', loaction = ''Singapore,Singapore,Singapore'',
      weather = ''Sunny'', weather_code = 0, temperature = 28\<rparr>"

section \<open>Properties of the field extractor\<close>

subsection \<open>What \<open>strstr\<close> finds\<close>

lemma is_prefix_append: "is_prefix k r = (\<exists>suf. r = k @ suf)"
  unfolding is_prefix_def
  by (metis append_eq_conv_conj append_take_drop_id)

lemma strstr_suffix: "strstr s k = Some r \<Longrightarrow> \<exists>pre. s = pre @ r \<and> is_prefix k r"
proof (induction s)
  case Nil
  then show ?case by (simp add: is_prefix_def split: if_splits)
next
  case (Cons c cs)
  show ?case
  proof (cases "is_prefix k (c # cs)")
    case True
    with Cons.prems have "r = c # cs" by simp
    with True show ?thesis by simp
  next
    case False
    with Cons.prems have "strstr cs k = Some r" by simp
    then obtain pre where "cs = pre @ r" "is_prefix k r" using Cons.IH by blast
    then have "c # cs = (c # pre) @ r" by simp
    with \<open>is_prefix k r\<close> show ?thesis by blast
  qed
qed

lemma strstr_None: "strstr s k = None \<Longrightarrow> s \<noteq> pre @ k @ suf"
proof (induction s arbitrary: pre)
  case Nil
  then show ?case by (simp split: if_splits)
next
  case (Cons c cs)
  from Cons.prems have np: "\<not> is_prefix k (c # cs)" and rest: "strstr cs k = None"
    by (simp_all split: if_splits)
  show ?case
  proof (cases pre)
    case Nil
    with np show ?thesis by (auto simp: is_prefix_append)
  next
    case (Cons p ps)
    with Cons.IH [OF rest, of ps] show ?thesis by auto
  qed
qed

text \<open>
  \<open>strstr\<close> finds the needle exactly when the needle occurs in the text.
\<close>

lemma strstr_occurs: "(strstr s k \<noteq> None) = (\<exists>pre suf. s = pre @ k @ suf)"
proof
  assume "strstr s k \<noteq> None"
  then obtain r where "strstr s k = Some r" by auto
  from strstr_suffix [OF this] show "\<exists>pre suf. s = pre @ k @ suf"
    by (auto simp: is_prefix_append)
next
  assume "\<exists>pre suf. s = pre @ k @ suf"
  then show "strstr s k \<noteq> None" using strstr_None by blast
qed

subsection \<open>The returned flag\<close>

lemma parse_flag:
  "fst (parse_seniverse_response atof response info) =
     (case strstr response key_results of
        None \<Rightarrow> False
      | Some results \<Rightarrow>
          strstr results key_location \<noteq> None \<and> strstr results key_now \<noteq> None)"
  by (simp add: parse_seniverse_response_def Let_def split: option.splits)

lemma parse_result:
  "strstr response key_results = Some results \<Longrightarrow>
   strstr results key_location = Some location_response \<Longrightarrow>
   strstr results key_now = Some now_response \<Longrightarrow>
   parse_seniverse_response atof response info =
     (True, parse_now atof now_response (parse_location location_response info))"
  by (simp add: parse_seniverse_response_def)

lemma parse_location_fields:
  "weather (parse_location l info) = weather info"
  "weather_code (parse_location l info) = weather_code info"
  "temperature (parse_location l info) = temperature info"
  "field_string key_name 31 l = None \<Longrightarrow> city (parse_location l info) = city info"
  "field_string key_path 128 l = None \<Longrightarrow> loaction (parse_location l info) = loaction info"
  by (simp_all add: parse_location_def split: option.splits)

lemma parse_now_fields:
  "city (parse_now atof n info) = city info"
  "loaction (parse_now atof n info) = loaction info"
  "field_string key_text 15 n = None \<Longrightarrow> weather (parse_now atof n info) = weather info"
  "field_int key_code n = None \<Longrightarrow> weather_code (parse_now atof n info) = weather_code info"
  "field_string key_temperature 15 n = None \<Longrightarrow>
     temperature (parse_now atof n info) = temperature info"
  by (simp_all add: parse_now_def split: option.splits)

lemma parse_exemplar_value:
  "parse_seniverse_response atof_decimal payload_exemplar weather_zero =
     (True,
      \<lparr>city = ''Singapore'', loaction = ''Singapore,Singapore,Singapore'',
       weather = ''Sunny'', weather_code = 0, temperature = 28\<rparr>)"
  by code_simp

subsection \<open>The exemplar payload\<close>

text \<open>
  C6: from the exemplar payload and a record of zeros the extractor returns true and
  the record with city Singapore, path Singapore,Singapore,Singapore, weather Sunny,
  code 0 and temperature 28.
\<close>

theorem parse_exemplar_payload:
  "parse_seniverse_response atof_decimal payload_exemplar weather_zero =
     (True,
      \<lparr>city = ''Singapore'', loaction = ''Singapore,Singapore,Singapore'',
       weather = ''Sunny'', weather_code = 0, temperature = 28\<rparr>)"
  by (rule parse_exemplar_value)

subsection \<open>Optional fields\<close>

lemma parse_without_code_value:
  "parse_seniverse_response atof_decimal payload_without_code weather_zero =
     (True,
      \<lparr>city = ''Singapore'', loaction = ''Singapore,Singapore,Singapore'',
       weather = ''Sunny'', weather_code = 0, temperature = 28\<rparr>)"
  by code_simp

text \<open>
  C8: from the exemplar payload without its code key, which then has no code key at
  all, and a record of zeros the extractor returns true, the code stays 0 and the
  other four fields are set as before. In general, once the three anchors are found
  the extractor returns true, and each field whose key is missing or whose scan stores
  nothing keeps the value the record had.
\<close>

theorem parse_payload_without_code:
  "parse_seniverse_response atof_decimal payload_without_code weather_zero =
     (True,
      \<lparr>city = ''Singapore'', loaction = ''Singapore,Singapore,Singapore'',
       weather = ''Sunny'', weather_code = 0, temperature = 28\<rparr>)
   \<and> strstr payload_without_code key_code = None
   \<and> (strstr response key_results = Some results
        \<and> strstr results key_location = Some location_response
        \<and> strstr results key_now = Some now_response \<longrightarrow>
      fst (parse_seniverse_response atof response info)
      \<and> (field_string key_name 31 location_response = None \<longrightarrow>
           city (snd (parse_seniverse_response atof response info)) = city info)
      \<and> (field_string key_path 128 location_response = None \<longrightarrow>
           loaction (snd (parse_seniverse_response atof response info)) = loaction info)
      \<and> (field_string key_text 15 now_response = None \<longrightarrow>
           weather (snd (parse_seniverse_response atof response info)) = weather info)
      \<and> (field_int key_code now_response = None \<longrightarrow>
           weather_code (snd (parse_seniverse_response atof response info))
             = weather_code info)
      \<and> (field_string key_temperature 15 now_response = None \<longrightarrow>
           temperature (snd (parse_seniverse_response atof response info))
             = temperature info))"
proof (intro conjI impI)
  show "parse_seniverse_response atof_decimal payload_without_code weather_zero =
     (True,
      \<lparr>city = ''Singapore'', loaction = ''Singapore,Singapore,Singapore'',
       weather = ''Sunny'', weather_code = 0, temperature = 28\<rparr>)"
    by (rule parse_without_code_value)
  show "strstr payload_without_code key_code = None"
    by code_simp
next
  assume "strstr response key_results = Some results
        \<and> strstr results key_location = Some location_response
        \<and> strstr results key_now = Some now_response"
  then have r: "parse_seniverse_response atof response info =
     (True, parse_now atof now_response (parse_location location_response info))"
    by (simp add: parse_result)
  show "fst (parse_seniverse_response atof response info)"
    by (simp add: r)
  show "city (snd (parse_seniverse_response atof response info)) = city info"
    if "field_string key_name 31 location_response = None"
    using that by (simp add: r parse_now_fields parse_location_fields)
  show "loaction (snd (parse_seniverse_response atof response info)) = loaction info"
    if "field_string key_path 128 location_response = None"
    using that by (simp add: r parse_now_fields parse_location_fields)
  show "weather (snd (parse_seniverse_response atof response info)) = weather info"
    if "field_string key_text 15 now_response = None"
    using that by (simp add: r parse_now_fields parse_location_fields)
  show "weather_code (snd (parse_seniverse_response atof response info)) = weather_code info"
    if "field_int key_code now_response = None"
    using that by (simp add: r parse_now_fields parse_location_fields)
  show "temperature (snd (parse_seniverse_response atof response info)) = temperature info"
    if "field_string key_temperature 15 now_response = None"
    using that by (simp add: r parse_now_fields parse_location_fields)
qed

theorem parse_payload_without_code_witness:
  "strstr payload_without_code key_results = Some (drop 1 payload_without_code)
   \<and> strstr (drop 1 payload_without_code) key_location = Some (drop 13 payload_without_code)
   \<and> strstr (drop 1 payload_without_code) key_now = Some (drop 84 payload_without_code)
   \<and> field_int key_code (drop 84 payload_without_code) = None
   \<and> fst (parse_seniverse_response atof_decimal payload_without_code weather_zero)
   \<and> weather_code (snd (parse_seniverse_response atof_decimal payload_without_code
        (weather_zero :: rat weather_info))) = weather_code (weather_zero :: rat weather_info)"
proof -
  have a: "strstr payload_without_code key_results = Some (drop 1 payload_without_code)"
    by code_simp
  have b: "strstr (drop 1 payload_without_code) key_location
             = Some (drop 13 payload_without_code)"
    by code_simp
  have c: "strstr (drop 1 payload_without_code) key_now = Some (drop 84 payload_without_code)"
    by code_simp
  have d: "field_int key_code (drop 84 payload_without_code) = None"
    by code_simp
  from a b c d
    parse_payload_without_code [where response = payload_without_code
      and results = "drop 1 payload_without_code"
      and location_response = "drop 13 payload_without_code"
      and now_response = "drop 84 payload_without_code"
      and atof = atof_decimal and info = "weather_zero :: rat weather_info"]
  show ?thesis by blast
qed

subsection \<open>Mandatory anchors\<close>

text \<open>
  C3, as stated, fails: a text that has the results anchor and the location anchor is
  rejected when it has no now anchor, and a text that has the results anchor and the
  now anchor is rejected when it has no location anchor.
\<close>

theorem two_anchors_not_sufficient:
  "strstr payload_without_now key_results \<noteq> None
   \<and> strstr payload_without_now key_location \<noteq> None
   \<and> fst (parse_seniverse_response atof_decimal payload_without_now weather_zero) = False
   \<and> strstr payload_without_location key_results \<noteq> None
   \<and> strstr payload_without_location key_now \<noteq> None
   \<and> fst (parse_seniverse_response atof_decimal payload_without_location weather_zero)
       = False"
  by code_simp

text \<open>
  C3, amended: the extractor has three mandatory anchors. It returns true exactly when
  the results anchor occurs in the text and both the location anchor and the now
  anchor occur in the part of the text that starts at the first results anchor. No
  field key takes part in the flag.
\<close>

theorem extraction_succeeds_iff_three_anchors:
  "fst (parse_seniverse_response atof response info) \<longleftrightarrow>
     (\<exists>results. strstr response key_results = Some results
        \<and> (\<exists>pre suf. results = pre @ key_location @ suf)
        \<and> (\<exists>pre suf. results = pre @ key_now @ suf))"
  unfolding parse_flag strstr_occurs [symmetric]
  by (simp split: option.splits)

theorem extraction_succeeds_iff_three_anchors_witness:
  "fst (parse_seniverse_response atof_decimal payload_exemplar weather_zero)
   \<and> (\<exists>results. strstr payload_exemplar key_results = Some results
        \<and> (\<exists>pre suf. results = pre @ key_location @ suf)
        \<and> (\<exists>pre suf. results = pre @ key_now @ suf))"
proof -
  have "fst (parse_seniverse_response atof_decimal payload_exemplar
          (weather_zero :: rat weather_info))"
    by (simp add: parse_exemplar_value)
  with extraction_succeeds_iff_three_anchors
         [of atof_decimal payload_exemplar "weather_zero :: rat weather_info"]
  show ?thesis by blast
qed

section \<open>Properties of the job bodies\<close>

subsection \<open>The change filter of the clock, sensor and weather jobs\<close>

lemma time_update_cases:
  "\<not> year date < 2020 \<Longrightarrow>
     time_update date last_date =
       (if date = last_date then (last_date, [])
        else (date, [Main_page_redraw_time date, Main_page_redraw_date date]))"
  by (simp add: time_update_def)

lemma inner_update_cases:
  "inner_update True True (Some (t, h)) (lt, lh) =
     (if float_eq t lt \<and> float_eq h lh then ((lt, lh), [])
      else ((t, h), [Main_page_redraw_inner_temperature t, Main_page_redraw_inner_humidity h]))"
  by (simp add: inner_update_def)

lemma outdoor_update_cases:
  "parse_seniverse_response atof response weather_zero = (True, w) \<Longrightarrow>
     outdoor_update atof (Some response) last_weather =
       (if last_weather = w then (last_weather, [])
        else (w, [Main_page_redraw_outdoor_temperature (temperature w),
                  Main_page_redraw_outdoor_weather_icon (weather_code w)]))"
  by (simp add: outdoor_update_def)

text \<open>
  The operator \<^verbatim>\<open>==\<close> on floats is symmetric, and reflexive on everything but a NaN.
\<close>

lemma float_eq_sym: "float_eq a b = float_eq b a"
  by (auto simp: float_eq_def)

lemma float_eq_refl: "float_eq a a = (\<not> is_nan a)"
  by (simp add: float_eq_def)

lemma samples_float_eq:
  "float_eq temperature_sample temperature_sample"
  "float_eq humidity_sample humidity_sample"
  "\<not> float_eq temperature_sample 0"
  by (simp_all add: float_eq_def is_nan_def is_zero_def temperature_sample_def
      humidity_sample_def)

lemma parse_exemplar_sample:
  "parse_seniverse_response atof_decimal payload_exemplar weather_zero
     = (True, weather_exemplar)"
  by (simp add: parse_exemplar_value weather_exemplar_def)

lemma weather_exemplar_not_zero: "weather_exemplar \<noteq> weather_zero"
  by (simp add: weather_exemplar_def weather_zero_def)

lemma date_sample_facts: "date_sample \<noteq> last_date_init" "\<not> year date_sample < 2020"
  by (simp_all add: date_sample_def last_date_init_def)

text \<open>
  C1: when the fetch succeeds (for the clock job: the year is not below 2020) each of
  the three jobs makes a display call exactly when the new value differs from the
  snapshot under the equality of its domain: equality of all fields for the clock and
  the weather record (\<^verbatim>\<open>memcmp\<close>), the operator \<^verbatim>\<open>==\<close> on both floats for the
  sensor. When they are equal the snapshot stays and nothing is called; when they
  differ the snapshot becomes the new value and the two display calls of the domain
  are made. A value delivered a second time makes no call; for the sensor this holds
  for values that are equal to themselves, that is, for all but NaN.
\<close>

theorem change_filter_forwards_iff_changed:
  "(\<not> year date < 2020 \<longrightarrow>
      (snd (time_update date last_date) \<noteq> [] \<longleftrightarrow> date \<noteq> last_date)
      \<and> (date = last_date \<longrightarrow> time_update date last_date = (last_date, []))
      \<and> (date \<noteq> last_date \<longrightarrow>
           time_update date last_date =
             (date, [Main_page_redraw_time date, Main_page_redraw_date date]))
      \<and> snd (time_update date (fst (time_update date last_date))) = [])
   \<and> ((snd (inner_update True True (Some (t, h)) (lt, lh)) \<noteq> []
          \<longleftrightarrow> \<not> (float_eq t lt \<and> float_eq h lh))
      \<and> (float_eq t lt \<and> float_eq h lh \<longrightarrow>
           inner_update True True (Some (t, h)) (lt, lh) = ((lt, lh), []))
      \<and> (\<not> (float_eq t lt \<and> float_eq h lh) \<longrightarrow>
           inner_update True True (Some (t, h)) (lt, lh) =
             ((t, h), [Main_page_redraw_inner_temperature t,
                       Main_page_redraw_inner_humidity h]))
      \<and> (float_eq t t \<and> float_eq h h \<longrightarrow>
           snd (inner_update True True (Some (t, h))
                  (fst (inner_update True True (Some (t, h)) (lt, lh)))) = []))
   \<and> (parse_seniverse_response atof response weather_zero = (True, w) \<longrightarrow>
      (snd (outdoor_update atof (Some response) last_weather) \<noteq> []
         \<longleftrightarrow> w \<noteq> last_weather)
      \<and> (w = last_weather \<longrightarrow>
           outdoor_update atof (Some response) last_weather = (last_weather, []))
      \<and> (w \<noteq> last_weather \<longrightarrow>
           outdoor_update atof (Some response) last_weather =
             (w, [Main_page_redraw_outdoor_temperature (temperature w),
                  Main_page_redraw_outdoor_weather_icon (weather_code w)]))
      \<and> snd (outdoor_update atof (Some response)
                (fst (outdoor_update atof (Some response) last_weather))) = [])"
proof (intro conjI)
  show "\<not> year date < 2020 \<longrightarrow>
      (snd (time_update date last_date) \<noteq> [] \<longleftrightarrow> date \<noteq> last_date)
      \<and> (date = last_date \<longrightarrow> time_update date last_date = (last_date, []))
      \<and> (date \<noteq> last_date \<longrightarrow>
           time_update date last_date =
             (date, [Main_page_redraw_time date, Main_page_redraw_date date]))
      \<and> snd (time_update date (fst (time_update date last_date))) = []"
    by (simp add: time_update_cases)
  show "snd (inner_update True True (Some (t, h)) (lt, lh)) \<noteq> []
          \<longleftrightarrow> \<not> (float_eq t lt \<and> float_eq h lh)"
    by (simp add: inner_update_cases)
  show "float_eq t lt \<and> float_eq h lh \<longrightarrow>
           inner_update True True (Some (t, h)) (lt, lh) = ((lt, lh), [])"
    by (simp add: inner_update_cases)
  show "\<not> (float_eq t lt \<and> float_eq h lh) \<longrightarrow>
           inner_update True True (Some (t, h)) (lt, lh) =
             ((t, h), [Main_page_redraw_inner_temperature t,
                       Main_page_redraw_inner_humidity h])"
    by (simp add: inner_update_cases)
  show "float_eq t t \<and> float_eq h h \<longrightarrow>
           snd (inner_update True True (Some (t, h))
                  (fst (inner_update True True (Some (t, h)) (lt, lh)))) = []"
    by (simp add: inner_update_cases)
  show "parse_seniverse_response atof response weather_zero = (True, w) \<longrightarrow>
      (snd (outdoor_update atof (Some response) last_weather) \<noteq> []
         \<longleftrightarrow> w \<noteq> last_weather)
      \<and> (w = last_weather \<longrightarrow>
           outdoor_update atof (Some response) last_weather = (last_weather, []))
      \<and> (w \<noteq> last_weather \<longrightarrow>
           outdoor_update atof (Some response) last_weather =
             (w, [Main_page_redraw_outdoor_temperature (temperature w),
                  Main_page_redraw_outdoor_weather_icon (weather_code w)]))
      \<and> snd (outdoor_update atof (Some response)
                (fst (outdoor_update atof (Some response) last_weather))) = []"
    by (auto simp: outdoor_update_cases)
qed

theorem change_filter_forwards_iff_changed_witness:
  "\<not> year date_sample < 2020
   \<and> date_sample \<noteq> last_date_init
   \<and> time_update date_sample last_date_init =
       (date_sample, [Main_page_redraw_time date_sample, Main_page_redraw_date date_sample])
   \<and> snd (time_update date_sample (fst (time_update date_sample last_date_init))) = []
   \<and> \<not> (float_eq temperature_sample 0 \<and> float_eq humidity_sample 0)
   \<and> inner_update True True (Some (temperature_sample, humidity_sample)) (0, 0) =
       ((temperature_sample, humidity_sample),
        [Main_page_redraw_inner_temperature temperature_sample,
         Main_page_redraw_inner_humidity humidity_sample])
   \<and> float_eq temperature_sample temperature_sample
   \<and> float_eq humidity_sample humidity_sample
   \<and> snd (inner_update True True (Some (temperature_sample, humidity_sample))
            (fst (inner_update True True (Some (temperature_sample, humidity_sample))
                    (0, 0)))) = []
   \<and> parse_seniverse_response atof_decimal payload_exemplar weather_zero
       = (True, weather_exemplar)
   \<and> weather_exemplar \<noteq> weather_zero
   \<and> outdoor_update atof_decimal (Some payload_exemplar) weather_zero =
       (weather_exemplar,
        [Main_page_redraw_outdoor_temperature (temperature weather_exemplar),
         Main_page_redraw_outdoor_weather_icon (weather_code weather_exemplar)])
   \<and> snd (outdoor_update atof_decimal (Some payload_exemplar)
            (fst (outdoor_update atof_decimal (Some payload_exemplar) weather_zero))) = []"
  using
    change_filter_forwards_iff_changed
      [where date = date_sample and last_date = last_date_init
         and t = temperature_sample and h = humidity_sample and lt = 0 and lh = 0
         and atof = atof_decimal and response = payload_exemplar
         and w = weather_exemplar and last_weather = weather_zero]
    date_sample_facts samples_float_eq parse_exemplar_sample weather_exemplar_not_zero
  by blast

text \<open>
  A NaN is not equal to itself, so a sensor reading that is a NaN is forwarded again
  when it is delivered again; and the two zeros are equal, so a reading of -0.0 after
  a snapshot of 0.0 is not forwarded.
\<close>

lemma inner_update_nan_and_zero:
  "snd (inner_update True True (Some (0x7FC00000, humidity_sample))
          (0x7FC00000, humidity_sample))
     = [Main_page_redraw_inner_temperature 0x7FC00000,
        Main_page_redraw_inner_humidity humidity_sample]"
  "inner_update True True (Some (0x80000000, 0)) (0, 0) = ((0, 0), [])"
  by (simp_all add: inner_update_def float_eq_def is_nan_def is_zero_def)

text \<open>
  A failed fetch leaves the snapshot and makes no call.
\<close>

lemma failed_fetch_no_effect:
  "wifi_update None last_info = (last_info, [])"
  "year date < 2020 \<Longrightarrow> time_update date last_date = (last_date, [])"
  "inner_update False waited measured last_values = (last_values, [])"
  "inner_update started False measured last_values = (last_values, [])"
  "inner_update started waited None last_values = (last_values, [])"
  "outdoor_update atof None last_weather = (last_weather, [])"
  "\<not> fst (parse_seniverse_response atof response weather_zero) \<Longrightarrow>
     outdoor_update atof (Some response) last_weather = (last_weather, [])"
  by (auto simp: wifi_update_def time_update_def inner_update_def outdoor_update_def
      split: prod.splits bool.splits)

subsection \<open>The time synchronisation job\<close>

text \<open>
  C2: every run of the time synchronisation job changes the period of its own timer
  exactly once, as its last call: to 1000 ms when the fetch fails or the year is below
  2000, to 3600000 ms otherwise. No other period is ever set.
\<close>

theorem time_sync_reprograms_once:
  "period_changes (time_sync fetched) =
     [(Time_sync_timer,
       PdMS_TO_TICKS
         (case fetched of
            None \<Rightarrow> 1000
          | Some esp_date \<Rightarrow> if esp_year esp_date < 2000 then 1000 else 3600000))]
   \<and> last (time_sync fetched) =
       XTimerChangePeriod Time_sync_timer
         (PdMS_TO_TICKS
            (case fetched of
               None \<Rightarrow> 1000
             | Some esp_date \<Rightarrow> if esp_year esp_date < 2000 then 1000 else 3600000)) 0"
  by (simp add: time_sync_def time_sync_attempt_def SECONDS_def MILLISECONDS_def
      TIME_SYNC_INTERVAL_def HOURS_def MINUTES_def split: option.splits)

theorem time_sync_reprograms_once_witness:
  "period_changes (time_sync None) = [(Time_sync_timer, PdMS_TO_TICKS 1000)]
   \<and> period_changes (time_sync (Some (esp_date_sample\<lparr>esp_year := 1970\<rparr>)))
       = [(Time_sync_timer, PdMS_TO_TICKS 1000)]
   \<and> period_changes (time_sync (Some esp_date_sample))
       = [(Time_sync_timer, PdMS_TO_TICKS 3600000)]
   \<and> last (time_sync (Some esp_date_sample))
       = XTimerChangePeriod Time_sync_timer (PdMS_TO_TICKS 3600000) 0"
  using time_sync_reprograms_once [of None]
    time_sync_reprograms_once [of "Some (esp_date_sample\<lparr>esp_year := 1970\<rparr>)"]
    time_sync_reprograms_once [of "Some esp_date_sample"]
  by (simp add: esp_date_sample_def)

text \<open>
  The whole run: a successful fetch of a plausible date also sets the RTC, before the
  period is changed.
\<close>

lemma time_sync_calls:
  "time_sync None = [XTimerChangePeriod Time_sync_timer (PdMS_TO_TICKS 1000) 0]"
  "esp_year esp_date < 2000 \<Longrightarrow>
     time_sync (Some esp_date) = [XTimerChangePeriod Time_sync_timer (PdMS_TO_TICKS 1000) 0]"
  "\<not> esp_year esp_date < 2000 \<Longrightarrow>
     time_sync (Some esp_date) =
       [Rtc_set_time (rtc_of_esp esp_date),
        XTimerChangePeriod Time_sync_timer (PdMS_TO_TICKS 3600000) 0]"
  by (simp_all add: time_sync_def time_sync_attempt_def SECONDS_def MILLISECONDS_def
      TIME_SYNC_INTERVAL_def HOURS_def MINUTES_def)

subsection \<open>The Wi-Fi status job\<close>

lemma wifi_samples:
  "connected wifi_home" "connected wifi_home_weak" "connected wifi_office"
  "\<not> connected wifi_none" "\<not> connected last_info_init"
  "ssid wifi_home = ''home''" "wifi_home_weak \<noteq> wifi_home"
  by (simp_all add: wifi_home_def wifi_home_weak_def wifi_office_def wifi_none_def
      last_info_init_def)

text \<open>
  C4: when the status fetch succeeds and the connected flag of the new status equals
  that of the snapshot, the job makes no display call and keeps the snapshot, whatever
  the other fields are. From disconnected to connected it makes exactly one call, with
  the name of the new network; from connected to disconnected exactly one call, with
  the text wifi lost.
\<close>

theorem wifi_update_connectivity_transitions:
  "(connected info = connected last_info \<longrightarrow>
      wifi_update (Some info) last_info = (last_info, []))
   \<and> (\<not> connected last_info \<and> connected info \<longrightarrow>
      wifi_update (Some info) last_info = (info, [Main_page_redraw_wifi_ssid (ssid info)]))
   \<and> (connected last_info \<and> \<not> connected info \<longrightarrow>
      wifi_update (Some info) last_info = (info, [Main_page_redraw_wifi_ssid ''wifi lost'']))"
  by (auto simp: wifi_update_def)

theorem wifi_update_connectivity_transitions_witness:
  "connected wifi_home_weak = connected wifi_home
   \<and> wifi_home_weak \<noteq> wifi_home
   \<and> wifi_update (Some wifi_home_weak) wifi_home = (wifi_home, [])
   \<and> \<not> connected last_info_init
   \<and> connected wifi_home
   \<and> wifi_update (Some wifi_home) last_info_init
       = (wifi_home, [Main_page_redraw_wifi_ssid ''home''])
   \<and> \<not> connected wifi_none
   \<and> wifi_update (Some wifi_none) wifi_home
       = (wifi_none, [Main_page_redraw_wifi_ssid ''wifi lost''])"
  using
    wifi_update_connectivity_transitions [of wifi_home_weak wifi_home]
    wifi_update_connectivity_transitions [of wifi_home last_info_init]
    wifi_update_connectivity_transitions [of wifi_none wifi_home]
    wifi_samples
  by simp

lemma wifi_update_keeps:
  "keeps_connectivity last_info fetched \<Longrightarrow> wifi_update fetched last_info = (last_info, [])"
  by (auto simp: wifi_update_def keeps_connectivity_def split: option.splits)

lemma wifi_update_runs_keeps:
  "list_all (keeps_connectivity last_info) deliveries \<Longrightarrow>
     wifi_update_runs deliveries last_info = (last_info, [])"
  by (induction deliveries) (simp_all add: wifi_update_keeps)

lemma wifi_samples_keep:
  "list_all (keeps_connectivity wifi_home)
     [Some wifi_home_weak, None, Some wifi_office, Some wifi_home]"
  by (simp add: keeps_connectivity_def wifi_samples)

text \<open>
  C9: the Wi-Fi status job is the filter that compares only the connected flags: the
  comparison of the whole struct adds nothing. So over any number of runs in which
  every delivery is a failed fetch or has the snapshot's connected flag, the snapshot
  stays as it was, with its old ssid, bssid, channel and rssi, and nothing is
  displayed.
\<close>

theorem wifi_update_is_connectivity_filter:
  "wifi_update fetched last_info = connectivity_filter fetched last_info
   \<and> (list_all (keeps_connectivity last_info) deliveries \<longrightarrow>
        wifi_update_runs deliveries last_info = (last_info, []))"
proof
  show "wifi_update fetched last_info = connectivity_filter fetched last_info"
    by (auto simp: wifi_update_def connectivity_filter_def split: option.splits)
  show "list_all (keeps_connectivity last_info) deliveries \<longrightarrow>
        wifi_update_runs deliveries last_info = (last_info, [])"
    by (simp add: wifi_update_runs_keeps)
qed

theorem wifi_update_is_connectivity_filter_witness:
  "list_all (keeps_connectivity wifi_home)
     [Some wifi_home_weak, None, Some wifi_office, Some wifi_home]
   \<and> wifi_update_runs [Some wifi_home_weak, None, Some wifi_office, Some wifi_home]
       wifi_home = (wifi_home, [])
   \<and> wifi_update (Some wifi_office) wifi_home
       = connectivity_filter (Some wifi_office) wifi_home"
  using
    wifi_update_is_connectivity_filter
      [of "Some wifi_office" wifi_home
          "[Some wifi_home_weak, None, Some wifi_office, Some wifi_home]"]
    wifi_samples_keep
  by blast

subsection \<open>The outdoor weather job and the city text\<close>

lemma no_city_call:
  "\<not> list_ex is_city_call (snd (wifi_update fetched last_info))"
  "\<not> list_ex is_city_call (snd (time_update date last_date))"
  "\<not> list_ex is_city_call (snd (inner_update started waited measured last_values))"
  "\<not> list_ex is_city_call (snd (outdoor_update atof weather_http_response last_weather))"
  by (simp_all add: wifi_update_def time_update_def inner_update_def outdoor_update_def
      split: option.splits prod.splits bool.splits)

lemma weather_exemplar_other_city:
  "weather_exemplar \<noteq> weather_exemplar\<lparr>city := ''Johor''\<rparr>"
  "temperature weather_exemplar = temperature (weather_exemplar\<lparr>city := ''Johor''\<rparr>)"
  "weather_code weather_exemplar = weather_code (weather_exemplar\<lparr>city := ''Johor''\<rparr>)"
  by (simp_all add: weather_exemplar_def)

text \<open>
  C10: when the parsed record differs from the snapshot but has the snapshot's
  temperature and weather code, so that the difference is in the city, the path or
  the weather text, the outdoor weather job still makes both of its display calls,
  with the temperature and the code of the snapshot. And no job that draws on the
  page ever makes the call that sets the city text. (The time synchronisation job and
  the startup make no display call at all.)
\<close>

theorem outdoor_update_forwards_undisplayed_change:
  "(parse_seniverse_response atof response weather_zero = (True, w)
      \<and> w \<noteq> last_weather
      \<and> temperature w = temperature last_weather
      \<and> weather_code w = weather_code last_weather \<longrightarrow>
    outdoor_update atof (Some response) last_weather =
      (w, [Main_page_redraw_outdoor_temperature (temperature last_weather),
           Main_page_redraw_outdoor_weather_icon (weather_code last_weather)]))
   \<and> \<not> list_ex is_city_call (snd (wifi_update fetched last_info))
   \<and> \<not> list_ex is_city_call (snd (time_update date last_date))
   \<and> \<not> list_ex is_city_call (snd (inner_update started waited measured last_values))
   \<and> \<not> list_ex is_city_call (snd (outdoor_update atof weather_http_response last_weather))"
proof (intro conjI impI)
  assume a: "parse_seniverse_response atof response weather_zero = (True, w)
      \<and> w \<noteq> last_weather
      \<and> temperature w = temperature last_weather
      \<and> weather_code w = weather_code last_weather"
  then have "last_weather \<noteq> w" by auto
  with a show "outdoor_update atof (Some response) last_weather =
      (w, [Main_page_redraw_outdoor_temperature (temperature last_weather),
           Main_page_redraw_outdoor_weather_icon (weather_code last_weather)])"
    by (simp add: outdoor_update_cases)
qed (rule no_city_call)+

theorem outdoor_update_forwards_undisplayed_change_witness:
  "parse_seniverse_response atof_decimal payload_exemplar weather_zero
     = (True, weather_exemplar)
   \<and> weather_exemplar \<noteq> weather_exemplar\<lparr>city := ''Johor''\<rparr>
   \<and> temperature weather_exemplar = temperature (weather_exemplar\<lparr>city := ''Johor''\<rparr>)
   \<and> weather_code weather_exemplar = weather_code (weather_exemplar\<lparr>city := ''Johor''\<rparr>)
   \<and> outdoor_update atof_decimal (Some payload_exemplar)
        (weather_exemplar\<lparr>city := ''Johor''\<rparr>) =
      (weather_exemplar,
       [Main_page_redraw_outdoor_temperature
          (temperature (weather_exemplar\<lparr>city := ''Johor''\<rparr>)),
        Main_page_redraw_outdoor_weather_icon
          (weather_code (weather_exemplar\<lparr>city := ''Johor''\<rparr>))])"
  using
    outdoor_update_forwards_undisplayed_change
      [where atof = atof_decimal and response = payload_exemplar
         and w = weather_exemplar and last_weather = "weather_exemplar\<lparr>city := ''Johor''\<rparr>"]
    parse_exemplar_sample weather_exemplar_other_city
  by blast

section \<open>Properties of the startup and of the weather icon\<close>

text \<open>
  C5, as stated, fails: the startup does not hand the clock display job to the work
  queue.
\<close>

theorem app_init_skips_time_update:
  "Time_update \<notin> set (queued_jobs app_init)"
  by (simp add: app_init_def)

text \<open>
  C5, amended: the startup starts the timers of all five jobs, and before it starts
  any of them it hands four jobs to the work queue, once each: time synchronisation,
  Wi-Fi status, indoor sensor and outdoor weather. The clock display job, the one job
  whose timer runs it directly, is not handed to the work queue.
\<close>

theorem app_init_queues_four_jobs:
  "started_timers app_init =
     [Time_update_timer, Time_sync_timer, Wifi_update_timer, Inner_update_timer,
      Outdoor_update_timer]
   \<and> (\<forall>t. t \<in> set (started_timers app_init))
   \<and> queued_jobs app_init = [Time_sync, Wifi_update, Inner_update, Outdoor_update]
   \<and> (\<forall>j. j \<in> set (queued_jobs app_init) \<longleftrightarrow> j \<noteq> Time_update)
   \<and> drop 5 app_init =
       map Workqueue_run [Time_sync, Wifi_update, Inner_update, Outdoor_update]
       @ map (\<lambda>t. XTimerStart t 0)
           [Time_update_timer, Time_sync_timer, Wifi_update_timer, Inner_update_timer,
            Outdoor_update_timer]"
proof (intro conjI)
  show st: "started_timers app_init =
     [Time_update_timer, Time_sync_timer, Wifi_update_timer, Inner_update_timer,
      Outdoor_update_timer]"
    by (simp add: app_init_def)
  show "\<forall>t. t \<in> set (started_timers app_init)"
  proof
    fix t
    show "t \<in> set (started_timers app_init)"
      unfolding st by (cases t) simp_all
  qed
  show qj: "queued_jobs app_init = [Time_sync, Wifi_update, Inner_update, Outdoor_update]"
    by (simp add: app_init_def)
  show "\<forall>j. j \<in> set (queued_jobs app_init) \<longleftrightarrow> j \<noteq> Time_update"
  proof
    fix j
    show "j \<in> set (queued_jobs app_init) \<longleftrightarrow> j \<noteq> Time_update"
      unfolding qj by (cases j) simp_all
  qed
  show "drop 5 app_init =
       map Workqueue_run [Time_sync, Wifi_update, Inner_update, Outdoor_update]
       @ map (\<lambda>t. XTimerStart t 0)
           [Time_update_timer, Time_sync_timer, Wifi_update_timer, Inner_update_timer,
            Outdoor_update_timer]"
    by (simp add: app_init_def)
qed

text \<open>
  The timers as the startup creates them: the clock display timer alone calls its job
  directly, and the time synchronisation timer alone does not reload.
\<close>

lemma app_init_creates:
  "take 5 app_init =
     [XTimerCreate Time_update_timer ''time update'' (PdMS_TO_TICKS 1000) True
        Time_update App_timer_cb,
      XTimerCreate Time_sync_timer ''time sync'' (PdMS_TO_TICKS 200) False
        Time_sync Work_timer_cb,
      XTimerCreate Wifi_update_timer ''wifi update'' (PdMS_TO_TICKS 5000) True
        Wifi_update Work_timer_cb,
      XTimerCreate Inner_update_timer ''inner upadte'' (PdMS_TO_TICKS 3000) True
        Inner_update Work_timer_cb,
      XTimerCreate Outdoor_update_timer ''outdoor update'' (PdMS_TO_TICKS 60000) True
        Outdoor_update Work_timer_cb]"
  by (simp add: app_init_def TIME_UPDATE_INTERVAL_def WIFI_UPDATE_INTERVAL_def
      INNER_UPDATE_INTERVAL_def OUTDOOR_UPDATE_INTERVAL_def SECONDS_def MINUTES_def
      MILLISECONDS_def)

text \<open>
  C7: the icon is chosen by the range of the code: 0 to 1 sunny, 4 to 8 cloudy, 9 to 13
  rainy, 14 to 17 snowy, and every other code the unknown icon; so code 2 gives the
  unknown icon and code 10 the rainy one. For every code an icon is chosen and drawn.
\<close>

theorem weather_icon_ranges:
  "weather_icon 2 = Some Img_weather_unknown
   \<and> weather_icon 10 = Some Img_weather_rainy
   \<and> weather_icon code =
       Some (if 0 \<le> code \<and> code \<le> 1 then Img_weather_sunny
             else if 4 \<le> code \<and> code \<le> 8 then Img_weather_cloudy
             else if 9 \<le> code \<and> code \<le> 13 then Img_weather_rainy
             else if 14 \<le> code \<and> code \<le> 17 then Img_weather_snowy
             else Img_weather_unknown)
   \<and> (\<exists>icon. weather_icon code = Some icon
        \<and> main_page_redraw_outdoor_weather_icon code =
            [Ui_fill_color 160 200 224 264 (Mkcolor 0 0 0), Ui_draw_image 160 200 icon])"
proof (intro conjI)
  show "weather_icon 2 = Some Img_weather_unknown"
    by (simp add: weather_icon_def)
  show "weather_icon 10 = Some Img_weather_rainy"
    by (simp add: weather_icon_def)
  show "weather_icon code =
       Some (if 0 \<le> code \<and> code \<le> 1 then Img_weather_sunny
             else if 4 \<le> code \<and> code \<le> 8 then Img_weather_cloudy
             else if 9 \<le> code \<and> code \<le> 13 then Img_weather_rainy
             else if 14 \<le> code \<and> code \<le> 17 then Img_weather_snowy
             else Img_weather_unknown)"
    unfolding weather_icon_def by (simp; arith)
  show "\<exists>icon. weather_icon code = Some icon
        \<and> main_page_redraw_outdoor_weather_icon code =
            [Ui_fill_color 160 200 224 264 (Mkcolor 0 0 0), Ui_draw_image 160 200 icon]"
    by (simp add: main_page_redraw_outdoor_weather_icon_def weather_icon_def
        WEATHER_ICON_X_def WEATHER_ICON_Y_def COLOR_BACKGROUND_def)
qed

theorem weather_icon_ranges_witness:
  "weather_icon 3 = Some Img_weather_unknown
   \<and> weather_icon (- 1) = Some Img_weather_unknown
   \<and> weather_icon 18 = Some Img_weather_unknown
   \<and> weather_icon 1 = Some Img_weather_sunny
   \<and> weather_icon 8 = Some Img_weather_cloudy
   \<and> weather_icon 17 = Some Img_weather_snowy"
  using weather_icon_ranges [of 3] weather_icon_ranges [of "- 1"] weather_icon_ranges [of 18]
    weather_icon_ranges [of 1] weather_icon_ranges [of 8] weather_icon_ranges [of 17]
  by simp

end
